theory Spec2Isabelle
  imports Main
begin

section \<open>Text\<close>

text \<open>
  A Python \<open>str\<close> is a sequence of Unicode code points, modelled as a list of natural
  numbers. Literal text of the program is written as a HOL string and converted with
  \<open>lit\<close>.
\<close>

type_synonym ustr = "nat list"

definition lit :: "string \<Rightarrow> ustr" where
  "lit s = map of_char s"

text \<open>
  The character classes of Python's Unicode database. For the code points below 256
  the classes are written out; above, they are the fields of a record that every
  function consulting them takes as its first argument.
  \<^item> \<open>uc_alnum\<close> is \<open>str.isalnum\<close>,
  \<^item> \<open>uc_space\<close> is \<open>str.isspace\<close>,
  \<^item> \<open>uc_decimal\<close> is the decimal digit value of a code point, if it has one.
\<close>

record ucd =
  uc_alnum :: "nat \<Rightarrow> bool"
  uc_space :: "nat \<Rightarrow> bool"
  uc_decimal :: "nat \<Rightarrow> nat option"

definition latin1_alnum :: "nat \<Rightarrow> bool" where
  "latin1_alnum c \<longleftrightarrow>
     (48 \<le> c \<and> c \<le> 57) \<or> (65 \<le> c \<and> c \<le> 90) \<or> (97 \<le> c \<and> c \<le> 122) \<or>
     c = 170 \<or> c = 178 \<or> c = 179 \<or> c = 181 \<or> c = 185 \<or> c = 186 \<or>
     (188 \<le> c \<and> c \<le> 190) \<or> (192 \<le> c \<and> c \<le> 214) \<or>
     (216 \<le> c \<and> c \<le> 246) \<or> (248 \<le> c \<and> c \<le> 255)"

definition latin1_space :: "nat \<Rightarrow> bool" where
  "latin1_space c \<longleftrightarrow>
     (9 \<le> c \<and> c \<le> 13) \<or> (28 \<le> c \<and> c \<le> 32) \<or> c = 133 \<or> c = 160"

definition is_alnum :: "ucd \<Rightarrow> nat \<Rightarrow> bool" where
  "is_alnum U c = (if c < 256 then latin1_alnum c else uc_alnum U c)"

definition is_space :: "ucd \<Rightarrow> nat \<Rightarrow> bool" where
  "is_space U c = (if c < 256 then latin1_space c else uc_space U c)"

text \<open>The class \<open>\w\<close> of a \<open>str\<close> pattern: alphanumeric, or the underscore.\<close>

definition is_word :: "ucd \<Rightarrow> nat \<Rightarrow> bool" where
  "is_word U c \<longleftrightarrow> is_alnum U c \<or> c = 95"

text \<open>A database with nothing above Latin-1, for evaluating concrete inputs.\<close>

definition latin1_only :: ucd where
  "latin1_only = \<lparr>uc_alnum = (\<lambda>c. False), uc_space = (\<lambda>c. False),
                   uc_decimal = (\<lambda>c. None)\<rparr>"

text \<open>\<open>str.strip()\<close> removes the white space at both ends.\<close>

definition py_strip :: "ucd \<Rightarrow> ustr \<Rightarrow> ustr" where
  "py_strip U s = rev (dropWhile (is_space U) (rev (dropWhile (is_space U) s)))"

definition startswith :: "ustr \<Rightarrow> ustr \<Rightarrow> bool" where
  "startswith s p \<longleftrightarrow> take (length p) s = p"

section \<open>Filename sanitizer\<close>

text \<open>
  \<^verbatim>\<open>safe = re.sub(r'[^\w\s-]', '', name)\<close>: every character outside the three classes
  is replaced by nothing.
\<close>

definition re_sub_unsafe :: "ucd \<Rightarrow> ustr \<Rightarrow> ustr" where
  "re_sub_unsafe U name = filter (\<lambda>c. is_word U c \<or> is_space U c \<or> c = 45) name"

text \<open>
  \<^verbatim>\<open>safe = re.sub(r'[\s]+', '_', safe)\<close>: scanning from the left, a match starts at a
  white space character and greedily takes the white space that follows; the match is
  replaced by one underscore and the scan goes on behind it.
\<close>

function re_sub_spaces :: "ucd \<Rightarrow> ustr \<Rightarrow> ustr" where
  "re_sub_spaces U [] = []"
| "re_sub_spaces U (c # cs) =
     (if is_space U c then 95 # re_sub_spaces U (dropWhile (is_space U) cs)
      else c # re_sub_spaces U cs)"
  by pat_completeness auto

termination re_sub_spaces
  by (relation "measure (\<lambda>(U, s). length s)")
     (auto simp: less_Suc_eq_le length_dropWhile_le)

definition sanitize_filename :: "ucd \<Rightarrow> ustr \<Rightarrow> ustr" where
  "sanitize_filename U name = take 50 (re_sub_spaces U (re_sub_unsafe U name))"

text \<open>
  The sanitizer as the specification words it: drop the characters that are neither
  word characters, white space nor hyphen; then put one underscore where a run of
  white space begins and drop the rest of the run; then keep the first 50.
\<close>

fun collapse_runs :: "ucd \<Rightarrow> bool \<Rightarrow> ustr \<Rightarrow> ustr" where
  "collapse_runs U in_run [] = []"
| "collapse_runs U in_run (c # cs) =
     (if is_space U c then
        (if in_run then collapse_runs U True cs else 95 # collapse_runs U True cs)
      else c # collapse_runs U False cs)"

definition spec_sanitize :: "ucd \<Rightarrow> ustr \<Rightarrow> ustr" where
  "spec_sanitize U text =
     take 50 (collapse_runs U False
       [c \<leftarrow> text. \<not> (\<not> is_word U c \<and> \<not> is_space U c \<and> c \<noteq> 45)])"

section \<open>Validation of a submission\<close>

text \<open>
  The values of the form when the generate button is pressed. The minimum-time input
  only exists while the checkbox is ticked; otherwise the script sets
  \<open>min_time_minutes = 0\<close>.
\<close>

record form =
  course_title :: ustr
  subtitle :: ustr
  additional_info :: ustr
  course_url :: ustr
  primary_color :: ustr
  expected_duration :: int
  mastery_score :: int
  require_min_time :: bool
  min_time_input :: int

definition min_time_minutes :: "form \<Rightarrow> int" where
  "min_time_minutes f = (if require_min_time f then min_time_input f else 0)"

definition has_scheme :: "ustr \<Rightarrow> bool" where
  "has_scheme url \<longleftrightarrow> startswith url (lit ''http://'') \<or> startswith url (lit ''https://'')"

text \<open>The list \<open>errors\<close> after the three checks of the button handler.\<close>

definition validate :: "ucd \<Rightarrow> form \<Rightarrow> string list" where
  "validate U f =
    (let errors = [];
         errors = (if py_strip U (course_title f) = []
                   then errors @ [''Course title is required''] else errors);
         errors = (if py_strip U (course_url f) = []
                   then errors @ [''Course URL is required'']
                   else if \<not> has_scheme (course_url f)
                   then errors @ [''Course URL must start with http:// or https://'']
                   else errors)
     in errors)"

section \<open>Numbers as text\<close>

text \<open>
  Decimal notation of an integer, as \<open>str\<close> and an f-string replacement field produce
  it for a Python \<open>int\<close>.
\<close>

function dec_digits :: "nat \<Rightarrow> ustr" where
  "dec_digits n = (if n < 10 then [48 + n] else dec_digits (n div 10) @ [48 + n mod 10])"
  by pat_completeness auto

termination dec_digits
  by (relation "measure id") auto

declare dec_digits.simps [simp del]

definition py_str :: "int \<Rightarrow> ustr" where
  "py_str i = (if i < 0 then 45 # dec_digits (nat (- i)) else dec_digits (nat i))"

text \<open>
  The format specification \<open>02x\<close> applied to a number that is not negative: lower-case
  hexadecimal digits, filled with zeros on the left up to two characters.
\<close>

definition hexchar :: "nat \<Rightarrow> nat" where
  "hexchar d = (if d < 10 then 48 + d else 87 + d)"

function hex_digits :: "nat \<Rightarrow> ustr" where
  "hex_digits n =
     (if n < 16 then [hexchar n] else hex_digits (n div 16) @ [hexchar (n mod 16)])"
  by pat_completeness auto

termination hex_digits
  by (relation "measure id") auto

declare hex_digits.simps [simp del]

definition format_02x :: "nat \<Rightarrow> ustr" where
  "format_02x n = (let h = hex_digits n in replicate (2 - length h) 48 @ h)"

datatype pyerr = ValueError | UnicodeEncodeError

text \<open>
  \<open>int(s, 16)\<close> on a slice \<open>s\<close> of at most two characters, which is all the page
  generator asks of it. The interpreter first maps every character from 127 on to
  ASCII: white space to a blank, a decimal digit of another script to the ASCII digit,
  anything else to a character that no literal contains. It then skips the white space
  of the C locale at both ends, reads a sign, and wants at least one digit and nothing
  but digits. (A base prefix \<open>0x\<close> or an underscore between digits needs three
  characters to be part of a valid literal.)
\<close>

definition decimal_of :: "ucd \<Rightarrow> nat \<Rightarrow> nat option" where
  "decimal_of U c = (if c < 256 then (if 48 \<le> c \<and> c \<le> 57 then Some (c - 48) else None)
                     else uc_decimal U c)"

definition ascii_fold :: "ucd \<Rightarrow> nat \<Rightarrow> nat" where
  "ascii_fold U c =
     (if c < 127 then c
      else if is_space U c then 32
      else case decimal_of U c of Some d \<Rightarrow> 48 + d | None \<Rightarrow> 63)"

definition c_isspace :: "nat \<Rightarrow> bool" where
  "c_isspace c \<longleftrightarrow> (9 \<le> c \<and> c \<le> 13) \<or> c = 32"

definition hex_value :: "nat \<Rightarrow> nat option" where
  "hex_value c =
     (if 48 \<le> c \<and> c \<le> 57 then Some (c - 48)
      else if 97 \<le> c \<and> c \<le> 102 then Some (c - 87)
      else if 65 \<le> c \<and> c \<le> 70 then Some (c - 55)
      else None)"

fun hex_number :: "nat \<Rightarrow> ustr \<Rightarrow> nat option" where
  "hex_number acc [] = Some acc"
| "hex_number acc (c # cs) =
     (case hex_value c of None \<Rightarrow> None | Some d \<Rightarrow> hex_number (16 * acc + d) cs)"

definition int_base16 :: "ucd \<Rightarrow> ustr \<Rightarrow> pyerr + int" where
  "int_base16 U s =
     (let a = map (ascii_fold U) s;
          b = rev (dropWhile c_isspace (rev (dropWhile c_isspace a)));
          negative = (b \<noteq> [] \<and> hd b = 45);
          ds = (if b \<noteq> [] \<and> (hd b = 45 \<or> hd b = 43) then tl b else b)
      in if ds = [] then Inl ValueError
         else case hex_number 0 ds of
                None \<Rightarrow> Inl ValueError
              | Some v \<Rightarrow> Inr (if negative then - int v else int v))"

section \<open>The three generated documents\<close>

text \<open>
  Each document is a fixed template with replacement fields. A document is represented
  by the values that fill its fields, in a record with one field per replacement; the
  text between the replacements is the same in every package.
\<close>

record manifest =
  man_identifier :: ustr
  man_organization_title :: ustr
  man_item_title :: ustr
  man_masteryscore :: ustr

definition generate_manifest :: "ustr \<Rightarrow> ustr \<Rightarrow> int \<Rightarrow> manifest" where
  "generate_manifest course_id title mastery =
     \<lparr>man_identifier = course_id, man_organization_title = title,
      man_item_title = title, man_masteryscore = py_str mastery\<rparr>"

record html_page =
  page_title :: ustr
  page_primary_color :: ustr
  page_darker :: ustr
  page_subtitle :: ustr
  page_additional_info :: ustr
  page_course_url :: ustr
  page_expected_duration :: ustr
  page_min_time_js :: ustr
  page_min_time_check :: ustr

text \<open>The text of \<open>min_time_check\<close> when the gate is required, line by line.\<close>

definition min_time_check_text :: "int \<Rightarrow> ustr" where
  "min_time_check_text minutes =
     [10] @ lit ''            if (totalSeconds < MIN_TIME_REQUIRED) {'' @
     [10] @ lit ''                var remaining = MIN_TIME_REQUIRED - totalSeconds;'' @
     [10] @ lit ''                alert('' @ [39] @ lit ''You need to spend at least '' @
       py_str minutes @
       lit '' minutes on this course before marking it complete.'' @
       [92, 110, 92, 110] @ lit ''Time remaining: '' @ [39] @
       lit '' + formatTime(remaining));'' @
     [10] @ lit ''                return;'' @
     [10] @ lit ''            }''"

definition generate_html ::
  "ucd \<Rightarrow> ustr \<Rightarrow> ustr \<Rightarrow> ustr \<Rightarrow> int \<Rightarrow> bool \<Rightarrow> int \<Rightarrow> ustr \<Rightarrow> ustr \<Rightarrow> pyerr + html_page" where
  "generate_html U title url color duration require_min minutes sub info =
     (let hex_color = dropWhile (\<lambda>c. c = 35) color in
      case int_base16 U (take 2 hex_color) of Inl e \<Rightarrow> Inl e | Inr r \<Rightarrow>
      case int_base16 U (take 2 (drop 2 hex_color)) of Inl e \<Rightarrow> Inl e | Inr g \<Rightarrow>
      case int_base16 U (take 2 (drop 4 hex_color)) of Inl e \<Rightarrow> Inl e | Inr b \<Rightarrow>
      let darker = [35] @ format_02x (nat (max 0 (r - 40))) @
                   format_02x (nat (max 0 (g - 40))) @ format_02x (nat (max 0 (b - 40)));
          min_time_seconds = minutes * 60;
          min_time_js = (if require_min
                         then lit ''var MIN_TIME_REQUIRED = '' @ py_str min_time_seconds @ lit '';''
                         else []);
          min_time_check = (if require_min then min_time_check_text minutes else [])
      in Inr \<lparr>page_title = title, page_primary_color = color, page_darker = darker,
              page_subtitle = (if sub \<noteq> [] then sub
                               else lit ''External Course with Time Tracking''),
              page_additional_info =
                (if info \<noteq> []
                 then lit ''<div class='' @ [34] @ lit ''additional-info'' @ [34] @ lit ''>'' @
                      info @ lit ''</div>''
                 else []),
              page_course_url = url,
              page_expected_duration = py_str (duration * 60),
              page_min_time_js = min_time_js,
              page_min_time_check = min_time_check\<rparr>)"

section \<open>Package assembly\<close>

datatype artifact = Manifest manifest | ScormApi | LauncherPage html_page

text \<open>
  \<open>writestr\<close> encodes a \<open>str\<close> as UTF-8, which fails on a surrogate code point. The
  fixed text of the templates has none, so a document is encoded when the values in
  its replacement fields are.
\<close>

definition utf8_ok :: "ustr \<Rightarrow> bool" where
  "utf8_ok s = list_all (\<lambda>c. \<not> (55296 \<le> c \<and> c \<le> 57343)) s"

fun encodable :: "artifact \<Rightarrow> bool" where
  "encodable (Manifest m) =
     (utf8_ok (man_identifier m) \<and> utf8_ok (man_organization_title m) \<and>
      utf8_ok (man_item_title m) \<and> utf8_ok (man_masteryscore m))"
| "encodable ScormApi = True"
| "encodable (LauncherPage p) =
     (utf8_ok (page_title p) \<and> utf8_ok (page_primary_color p) \<and> utf8_ok (page_darker p) \<and>
      utf8_ok (page_subtitle p) \<and> utf8_ok (page_additional_info p) \<and>
      utf8_ok (page_course_url p) \<and> utf8_ok (page_expected_duration p) \<and>
      utf8_ok (page_min_time_js p) \<and> utf8_ok (page_min_time_check p))"

datatype compress_type = ZIP_STORED | ZIP_DEFLATED

record zip_entry =
  entry_name :: string
  entry_compress :: compress_type
  entry_data :: artifact

text \<open>An open \<open>ZipFile\<close>: its compression method and the entries written so far.\<close>

record zip_file =
  compression :: compress_type
  infolist :: "zip_entry list"

definition writestr :: "zip_file \<Rightarrow> string \<Rightarrow> artifact \<Rightarrow> pyerr + zip_file" where
  "writestr z name data =
     (if encodable data
      then Inr (z\<lparr>infolist := infolist z @
                  [\<lparr>entry_name = name, entry_compress = compression z, entry_data = data\<rparr>]\<rparr>)
      else Inl UnicodeEncodeError)"

text \<open>
  The package is returned as the list of its entries, in the order of the archive's
  directory; the compressed bytes are not modelled.
\<close>

definition create_scorm_package ::
  "ucd \<Rightarrow> ustr \<Rightarrow> ustr \<Rightarrow> ustr \<Rightarrow> int \<Rightarrow> int \<Rightarrow> bool \<Rightarrow> int \<Rightarrow> ustr \<Rightarrow> ustr
     \<Rightarrow> pyerr + zip_entry list" where
  "create_scorm_package U title url color mastery duration require_min minutes sub info =
     (let course_id = sanitize_filename U title;
          zip_file = \<lparr>compression = ZIP_DEFLATED, infolist = []\<rparr>;
          manifest = generate_manifest course_id title mastery in
      case writestr zip_file ''imsmanifest.xml'' (Manifest manifest) of
        Inl e \<Rightarrow> Inl e | Inr zip_file \<Rightarrow>
      case writestr zip_file ''scormapi.js'' ScormApi of
        Inl e \<Rightarrow> Inl e | Inr zip_file \<Rightarrow>
      case generate_html U title url color duration require_min minutes sub info of
        Inl e \<Rightarrow> Inl e | Inr html \<Rightarrow>
      case writestr zip_file ''index.html'' (LauncherPage html) of
        Inl e \<Rightarrow> Inl e | Inr zip_file \<Rightarrow> Inr (infolist zip_file))"

text \<open>
  What the button handler ends with: the error messages shown, or the download offered
  (the package and its file name), or the message of an exception caught while
  generating.
\<close>

datatype outcome =
    Rejected "string list"
  | Download "zip_entry list" ustr
  | Failed pyerr

definition on_generate :: "ucd \<Rightarrow> form \<Rightarrow> outcome" where
  "on_generate U f =
     (let errors = validate U f in
      if errors \<noteq> [] then Rejected errors
      else case create_scorm_package U (py_strip U (course_title f))
                  (py_strip U (course_url f)) (primary_color f) (mastery_score f)
                  (expected_duration f) (require_min_time f) (min_time_minutes f)
                  (py_strip U (subtitle f)) (py_strip U (additional_info f)) of
             Inl e \<Rightarrow> Failed e
           | Inr zip_data \<Rightarrow>
               Download zip_data (sanitize_filename U (course_title f) @ lit ''_SCORM.zip''))"

section \<open>The script of the launcher page\<close>

text \<open>
  The page's script runs in the learner's browser. Its text is fixed in the template of
  \<open>generate_html\<close>, except for the two replacement fields of the minimum-time gate; the
  functions of the script that the properties below are about are modelled here, under
  their names in the script.

  A JavaScript string is a list of code units. A JavaScript Number holding a whole
  number is an \<open>int\<close>: the script counts seconds, and a Number is exact for every whole
  number below \<open>2 ^ 53\<close>.
\<close>

text \<open>\<open>String(n)\<close> for a whole number, and \<open>s.padStart(k, '0')\<close>.\<close>

definition js_String :: "int \<Rightarrow> ustr" where
  "js_String n = (if n < 0 then 45 # dec_digits (nat (- n)) else dec_digits (nat n))"

definition padStart :: "nat \<Rightarrow> ustr \<Rightarrow> ustr" where
  "padStart k s = replicate (k - length s) 48 @ s"

text \<open>
  The remainder operator \<open>%\<close> takes the sign of the dividend; \<open>Math.floor(a / b)\<close> on
  whole numbers is the division of \<open>int\<close>, which rounds down.
\<close>

definition js_rem :: "int \<Rightarrow> int \<Rightarrow> int" where
  "js_rem a b = (if a < 0 then - ((- a) mod \<bar>b\<bar>) else a mod \<bar>b\<bar>)"

definition formatTime :: "int \<Rightarrow> ustr" where
  "formatTime seconds =
     (let hrs = seconds div 3600;
          mins = js_rem seconds 3600 div 60;
          secs = js_rem seconds 60
      in padStart 2 (js_String hrs) @ [58] @ padStart 2 (js_String mins) @ [58] @
         padStart 2 (js_String secs))"

definition formatScormTime :: "int \<Rightarrow> ustr" where
  "formatScormTime seconds =
     (let hrs = seconds div 3600;
          mins = js_rem seconds 3600 div 60;
          secs = js_rem seconds 60
      in padStart 4 (js_String hrs) @ [58] @ padStart 2 (js_String mins) @ [58] @
         padStart 2 (js_String secs) @ lit ''.00'')"


text \<open>\<open>s.split(':')\<close>: the pieces between the colons, at least one piece.\<close>

fun split_colon :: "ustr \<Rightarrow> ustr list" where
  "split_colon [] = [[]]"
| "split_colon (c # cs) =
     (if c = 58 then [] # split_colon cs
      else case split_colon cs of p # ps \<Rightarrow> (c # p) # ps | [] \<Rightarrow> [[c]])"

text \<open>
  White space and line terminators of the language, which \<open>parseInt\<close> and \<open>parseFloat\<close>
  skip at the start of their argument.
\<close>

definition js_space :: "nat \<Rightarrow> bool" where
  "js_space c \<longleftrightarrow>
     (9 \<le> c \<and> c \<le> 13) \<or> c = 32 \<or> c = 160 \<or> c = 5760 \<or> (8192 \<le> c \<and> c \<le> 8202) \<or>
     c = 8232 \<or> c = 8233 \<or> c = 8239 \<or> c = 8287 \<or> c = 12288 \<or> c = 65279"

definition is_digit :: "nat \<Rightarrow> bool" where
  "is_digit c \<longleftrightarrow> 48 \<le> c \<and> c \<le> 57"

definition digits_value :: "ustr \<Rightarrow> nat" where
  "digits_value ds = foldl (\<lambda>a c. 10 * a + (c - 48)) 0 ds"

text \<open>
  \<open>parseInt(s, 10)\<close>: white space, a sign, then the longest run of digits; \<open>None\<close> is
  \<open>NaN\<close>, the result when there is no digit.
\<close>

definition js_parseInt :: "ustr \<Rightarrow> int option" where
  "js_parseInt s =
     (let t = dropWhile js_space s;
          negative = (t \<noteq> [] \<and> hd t = 45);
          u = (if t \<noteq> [] \<and> (hd t = 45 \<or> hd t = 43) then tl t else t);
          ds = takeWhile is_digit u
      in if ds = [] then None
         else Some (if negative then - int (digits_value ds) else int (digits_value ds)))"

text \<open>
  \<open>parseFloat(s)\<close>: white space, a sign, then the longest prefix that is a decimal
  literal: \<open>Infinity\<close>, or digits with an optional fraction, or a fraction alone, each
  with an optional exponent. \<open>Finite neg m e\<close> stands for the number \<open>m * 10 ^ e\<close>, negated
  when \<open>neg\<close> holds.
\<close>

datatype js_float = NaN | Infinity bool | Finite bool nat int

definition exponent_part :: "ustr \<Rightarrow> int" where
  "exponent_part r =
     (if r \<noteq> [] \<and> (hd r = 101 \<or> hd r = 69) then
        (let r' = tl r;
             negative = (r' \<noteq> [] \<and> hd r' = 45);
             r'' = (if r' \<noteq> [] \<and> (hd r' = 45 \<or> hd r' = 43) then tl r' else r');
             ds = takeWhile is_digit r''
         in if ds = [] then 0
            else if negative then - int (digits_value ds) else int (digits_value ds))
      else 0)"

definition js_parseFloat :: "ustr \<Rightarrow> js_float" where
  "js_parseFloat s =
     (let t = dropWhile js_space s;
          negative = (t \<noteq> [] \<and> hd t = 45);
          u = (if t \<noteq> [] \<and> (hd t = 45 \<or> hd t = 43) then tl t else t)
      in if startswith u (lit ''Infinity'') then Infinity negative
         else
           let ip = takeWhile is_digit u;
               r = dropWhile is_digit u;
               dot = (r \<noteq> [] \<and> hd r = 46);
               fp = (if dot then takeWhile is_digit (tl r) else []);
               r' = (if dot then dropWhile is_digit (tl r) else r)
           in if ip = [] \<and> fp = [] then NaN
              else Finite negative (digits_value (ip @ fp))
                     (exponent_part r' - int (length fp)))"

text \<open>
  \<open>Math.floor(x || 0)\<close> for a result \<open>x\<close> of \<open>parseFloat\<close>: \<open>NaN\<close> and zero count as
  false and give 0. \<open>None\<close> is an infinity, which is no whole number.
\<close>

fun floor_or_zero :: "js_float \<Rightarrow> int option" where
  "floor_or_zero NaN = Some 0"
| "floor_or_zero (Infinity neg) = None"
| "floor_or_zero (Finite neg m e) =
     (if 0 \<le> e then Some ((if neg then - int m else int m) * 10 ^ nat e)
      else Some ((if neg then - int m else int m) div 10 ^ nat (- e)))"

text \<open>
  \<open>parseScormTime\<close>. The empty string is false in a condition. \<open>None\<close>: the seconds
  field reads as an infinity, and so does the sum.
\<close>

definition parseScormTime :: "ustr \<Rightarrow> int option" where
  "parseScormTime timeStr =
     (if timeStr = [] then Some 0
      else
        let parts = split_colon timeStr in
        if length parts \<ge> 3 then
          (let hrs = (case js_parseInt (parts ! 0) of None \<Rightarrow> 0 | Some v \<Rightarrow> v);
               mins = (case js_parseInt (parts ! 1) of None \<Rightarrow> 0 | Some v \<Rightarrow> v)
           in case floor_or_zero (js_parseFloat (parts ! 2)) of
                None \<Rightarrow> None
              | Some secs \<Rightarrow> Some (hrs * 3600 + mins * 60 + secs))
        else Some 0)"

subsection \<open>State of the page and of the SCORM wrapper\<close>

text \<open>
  The calls that the wrapper makes on the API object of the LMS, and the dialogs that the
  page opens, are recorded in the order in which they happen.
\<close>

datatype api_call =
    LMSGetValue ustr
  | LMSSetValue ustr ustr
  | LMSCommit
  | LMSFinish

datatype dialog = Alert ustr | Confirm ustr

record page_state =
  sessionSeconds :: int
  totalSeconds :: int
  isTimerRunning :: bool
  statusValue :: ustr
  statusCompleted :: bool
  timerIndicator :: ustr
  isInitialized :: bool
  api_calls :: "api_call list"
  dialogs :: "dialog list"

text \<open>The wrapper \<open>SCORM\<close> of scormapi.js; \<open>isInitialized\<close> is only set with an API found.\<close>

definition SCORM_setValue :: "ustr \<Rightarrow> ustr \<Rightarrow> page_state \<Rightarrow> page_state" where
  "SCORM_setValue element v st =
     (if isInitialized st
      then st\<lparr>api_calls := api_calls st @ [LMSSetValue element v, LMSCommit]\<rparr>
      else st)"

definition SCORM_setStatus :: "ustr \<Rightarrow> page_state \<Rightarrow> page_state" where
  "SCORM_setStatus status st =
     (if isInitialized st
      then st\<lparr>api_calls := api_calls st @
                 [LMSSetValue (lit ''cmi.core.lesson_status'') status, LMSCommit]\<rparr>
      else st)"

definition SCORM_setScore :: "int \<Rightarrow> page_state \<Rightarrow> page_state" where
  "SCORM_setScore score st =
     (if isInitialized st
      then st\<lparr>api_calls := api_calls st @
                 [LMSSetValue (lit ''cmi.core.score.raw'') (js_String score),
                  LMSSetValue (lit ''cmi.core.score.min'') (lit ''0''),
                  LMSSetValue (lit ''cmi.core.score.max'') (lit ''100''),
                  LMSCommit]\<rparr>
      else st)"

definition SCORM_complete :: "page_state \<Rightarrow> page_state" where
  "SCORM_complete st = SCORM_setScore 100 (SCORM_setStatus (lit ''completed'') st)"

text \<open>
  \<open>commitTimeToScorm\<close>; \<open>now\<close> is the text of \<open>new Date().toISOString()\<close> at the call.
\<close>

definition suspend_json :: "int \<Rightarrow> ustr \<Rightarrow> ustr" where
  "suspend_json seconds now =
     [123, 34] @ lit ''totalTime'' @ [34, 58] @ js_String seconds @ [44, 34] @
     lit ''lastAccess'' @ [34, 58, 34] @ now @ [34, 125]"

definition commitTimeToScorm :: "ustr \<Rightarrow> page_state \<Rightarrow> page_state" where
  "commitTimeToScorm now st =
     (if isInitialized st
      then SCORM_setValue (lit ''cmi.suspend_data'') (suspend_json (totalSeconds st) now)
             (SCORM_setValue (lit ''cmi.core.session_time'')
                (formatScormTime (sessionSeconds st)) st)
      else st)"

definition pauseTimer :: "ustr \<Rightarrow> page_state \<Rightarrow> page_state" where
  "pauseTimer now st =
     (if \<not> isTimerRunning st then st
      else commitTimeToScorm now
             (st\<lparr>isTimerRunning := False, timerIndicator := lit ''timer-paused''\<rparr>))"

definition updateStatus :: "ustr \<Rightarrow> bool \<Rightarrow> page_state \<Rightarrow> page_state" where
  "updateStatus status completed st =
     (let st' = st\<lparr>statusValue := status\<rparr>
      in if completed then st'\<lparr>statusCompleted := True\<rparr> else st')"

text \<open>
  \<open>loadTimeFromScorm\<close>. \<open>suspend\<close> is the \<open>totalTime\<close> of the object that \<open>JSON.parse\<close>
  makes of \<open>cmi.suspend_data\<close>, a whole number as \<open>commitTimeToScorm\<close> writes it; it is
  \<open>None\<close> when the element is empty, is not JSON or has no \<open>totalTime\<close>. \<open>total_time\<close> is
  the value of \<open>cmi.core.total_time\<close>. The result is \<open>None\<close> when the total becomes an
  infinity.
\<close>

definition loadTimeFromScorm :: "int option \<Rightarrow> ustr \<Rightarrow> page_state \<Rightarrow> page_state option" where
  "loadTimeFromScorm suspend total_time st =
     (if isInitialized st then
        (let st1 = st\<lparr>api_calls := api_calls st @ [LMSGetValue (lit ''cmi.suspend_data'')]\<rparr>;
             st2 = (case suspend of
                      Some t \<Rightarrow> if t \<noteq> 0 then st1\<lparr>totalSeconds := t\<rparr> else st1
                    | None \<Rightarrow> st1);
             st3 = st2\<lparr>api_calls := api_calls st2 @ [LMSGetValue (lit ''cmi.core.total_time'')]\<rparr>
         in if total_time \<noteq> [] then
              (case parseScormTime total_time of
                 None \<Rightarrow> None
               | Some prevTotal \<Rightarrow>
                   Some (if prevTotal > totalSeconds st3
                         then st3\<lparr>totalSeconds := prevTotal\<rparr> else st3))
            else Some st3)
      else Some st)"

text \<open>
  The minimum-time gate that the replacement fields \<open>min_time_js\<close> and \<open>min_time_check\<close>
  compile into the page: the constant \<open>MIN_TIME_REQUIRED\<close> and the number of minutes in
  the message, or nothing.
\<close>

record gate =
  MIN_TIME_REQUIRED :: int
  gate_minutes :: int

definition compiled_gate :: "bool \<Rightarrow> int \<Rightarrow> gate option" where
  "compiled_gate require_min minutes =
     (if require_min then Some \<lparr>MIN_TIME_REQUIRED = minutes * 60, gate_minutes = minutes\<rparr>
      else None)"

definition gate_message :: "int \<Rightarrow> int \<Rightarrow> ustr" where
  "gate_message minutes remaining =
     lit ''You need to spend at least '' @ py_str minutes @
     lit '' minutes on this course before marking it complete.'' @ [10, 10] @
     lit ''Time remaining: '' @ formatTime remaining"

text \<open>
  \<open>markComplete\<close>, with the gate compiled into it; \<open>answer\<close> is what the learner answers
  to the confirmation.
\<close>

definition confirm_complete :: "ustr \<Rightarrow> bool \<Rightarrow> page_state \<Rightarrow> page_state" where
  "confirm_complete now answer st =
     (let st1 = st\<lparr>dialogs := dialogs st @
                  [Confirm (lit ''Are you sure you want to mark this course as complete?'' @
                     [10, 10] @ lit ''Total time: '' @ formatTime (totalSeconds st))]\<rparr>
      in if answer then
           (let st2 = pauseTimer now st1;
                st3 = commitTimeToScorm now st2;
                st4 = SCORM_complete st3;
                st5 = updateStatus (lit ''Completed'') True st4
            in st5\<lparr>dialogs := dialogs st5 @
                 [Alert (lit ''Course has been marked as complete!'' @ [10] @
                    lit ''Total time recorded: '' @ formatTime (totalSeconds st5))]\<rparr>)
         else st1)"

definition markComplete :: "gate option \<Rightarrow> ustr \<Rightarrow> bool \<Rightarrow> page_state \<Rightarrow> page_state" where
  "markComplete g now answer st =
     (case g of
        Some c \<Rightarrow>
          if totalSeconds st < MIN_TIME_REQUIRED c then
            (let remaining = MIN_TIME_REQUIRED c - totalSeconds st
             in st\<lparr>dialogs := dialogs st @ [Alert (gate_message (gate_minutes c) remaining)]\<rparr>)
          else confirm_complete now answer st
      | None \<Rightarrow> confirm_complete now answer st)"

section \<open>The hover shade as the specification words it\<close>

text \<open>
  A colour of six hexadecimal digits: the digits are read in pairs as the red, green and
  blue bytes; each byte is lowered by 40 and not below 0, and written again as two
  hexadecimal digits.
\<close>

definition is_hex6 :: "ustr \<Rightarrow> bool" where
  "is_hex6 ds \<longleftrightarrow> length ds = 6 \<and> list_all (\<lambda>c. hex_value c \<noteq> None) ds"

definition digit_value :: "nat \<Rightarrow> nat" where
  "digit_value c = (case hex_value c of Some d \<Rightarrow> d | None \<Rightarrow> 0)"

definition channel :: "ustr \<Rightarrow> nat \<Rightarrow> nat" where
  "channel ds i = 16 * digit_value (ds ! (2 * i)) + digit_value (ds ! (2 * i + 1))"

definition darken :: "nat \<Rightarrow> nat" where
  "darken v = (if v < 40 then 0 else v - 40)"

definition two_hex :: "nat \<Rightarrow> ustr" where
  "two_hex v = [hexchar (v div 16), hexchar (v mod 16)]"

definition spec_hover_shade :: "ustr \<Rightarrow> ustr" where
  "spec_hover_shade ds =
     [35] @ two_hex (darken (channel ds 0)) @ two_hex (darken (channel ds 1)) @
     two_hex (darken (channel ds 2))"

text \<open>The hover shade that \<open>generate_html\<close> puts into the page.\<close>

definition hover_shade ::
  "ucd \<Rightarrow> ustr \<Rightarrow> ustr \<Rightarrow> ustr \<Rightarrow> int \<Rightarrow> bool \<Rightarrow> int \<Rightarrow> ustr \<Rightarrow> ustr \<Rightarrow> pyerr + ustr" where
  "hover_shade U title url color duration require_min minutes sub info =
     (case generate_html U title url color duration require_min minutes sub info of
        Inl e \<Rightarrow> Inl e | Inr page \<Rightarrow> Inr (page_darker page))"

section \<open>Concrete submissions\<close>

definition blank_form :: form where
  "blank_form = \<lparr>course_title = lit ''  '', subtitle = [], additional_info = [],
     course_url = lit ''ftp://example.com'', primary_color = lit ''#5F2EEA'',
     expected_duration = 60, mastery_score = 80, require_min_time = False,
     min_time_input = 30\<rparr>"

definition spaced_url_form :: form where
  "spaced_url_form = \<lparr>course_title = lit ''Demo'', subtitle = [], additional_info = [],
     course_url = lit '' https://example.com'', primary_color = lit ''#5F2EEA'',
     expected_duration = 60, mastery_score = 80, require_min_time = False,
     min_time_input = 30\<rparr>"


section \<open>Verified properties\<close>

lemma is_space_underscore: "\<not> is_space U 95"
  by (simp add: is_space_def latin1_space_def)

lemma is_word_underscore: "is_word U 95"
  by (simp add: is_word_def)

lemma re_sub_spaces_collapse:
  "collapse_runs U True s = re_sub_spaces U (dropWhile (is_space U) s) \<and>
   collapse_runs U False s = re_sub_spaces U s"
  by (induction s) simp_all

lemma collapse_runs_set:
  "set (collapse_runs U b s) \<subseteq> {c \<in> set s. \<not> is_space U c} \<union> {95}"
  by (induction s arbitrary: b) auto

lemma collapse_runs_clean:
  "\<forall>c \<in> set s. \<not> is_space U c \<Longrightarrow> collapse_runs U b s = s"
  by (induction s arbitrary: b) auto

lemma sanitize_filename_eq_spec: "sanitize_filename U name = spec_sanitize U name"
  by (simp add: sanitize_filename_def spec_sanitize_def re_sub_unsafe_def
      re_sub_spaces_collapse)

lemma sanitize_filename_chars:
  assumes "c \<in> set (sanitize_filename U name)"
  shows "(is_word U c \<or> c = 45) \<and> \<not> is_space U c \<and> (c \<in> set name \<or> c = 95)"
proof -
  from assms have "c \<in> set (collapse_runs U False (re_sub_unsafe U name))"
    by (auto simp: sanitize_filename_def re_sub_spaces_collapse dest: in_set_takeD)
  with collapse_runs_set [of U False "re_sub_unsafe U name"]
  have "(c \<in> set (re_sub_unsafe U name) \<and> \<not> is_space U c) \<or> c = 95" by auto
  then show ?thesis
    by (auto simp: re_sub_unsafe_def is_space_underscore is_word_underscore)
qed

lemma sanitize_filename_length: "length (sanitize_filename U name) \<le> 50"
  by (simp add: sanitize_filename_def)

lemma sanitize_example:
  "sanitize_filename U (lit ''Selling the Message'' @ [174]) = lit ''Selling_the_Message''"
  by (simp add: sanitize_filename_def re_sub_unsafe_def is_word_def is_alnum_def
      is_space_def latin1_alnum_def latin1_space_def lit_def)

text \<open>
  Claim C2. For every input, the result of \<open>sanitize_filename\<close> holds only word
  characters and hyphens, none of them white space, and at most 50 characters; it is
  the input with every character removed that is not a word character, white space or
  a hyphen, then every maximal run of white space replaced by one underscore, then cut
  to 50 characters; and the title "Selling the Message" followed by the registered sign
  (code point 174) gives \<open>Selling_the_Message\<close>.
\<close>

theorem sanitize_filename_spec:
  "(\<forall>c \<in> set (sanitize_filename U name). (is_word U c \<or> c = 45) \<and> \<not> is_space U c) \<and>
   length (sanitize_filename U name) \<le> 50 \<and>
   sanitize_filename U name = spec_sanitize U name \<and>
   sanitize_filename U (lit ''Selling the Message'' @ [174]) = lit ''Selling_the_Message''"
  using sanitize_filename_chars [of _ U name] sanitize_filename_length [of U name]
    sanitize_filename_eq_spec [of U name] sanitize_example [of U]
  by blast

theorem sanitize_filename_spec_witness:
  "list_all (\<lambda>c. (is_word latin1_only c \<or> c = 45) \<and> \<not> is_space latin1_only c)
     (sanitize_filename latin1_only (lit ''a  b!'')) \<and>
   length (sanitize_filename latin1_only (lit ''a  b!'')) \<le> 50 \<and>
   sanitize_filename latin1_only (lit ''a  b!'') = spec_sanitize latin1_only (lit ''a  b!'') \<and>
   sanitize_filename latin1_only (lit ''a  b!'') = lit ''a_b''"
proof -
  have e: "sanitize_filename latin1_only (lit ''a  b!'') = lit ''a_b''"
    by (simp add: sanitize_filename_def re_sub_unsafe_def is_word_def is_alnum_def
      is_space_def latin1_alnum_def latin1_space_def lit_def)
  show ?thesis
    using sanitize_filename_spec [of latin1_only "lit ''a  b!''"] e
    unfolding list_all_iff by blast
qed

text \<open>
  Claim C9. \<open>sanitize_filename\<close> is idempotent: sanitizing a sanitized name changes
  nothing.
\<close>

theorem sanitize_filename_idempotent:
  "sanitize_filename U (sanitize_filename U x) = sanitize_filename U x"
proof -
  let ?r = "sanitize_filename U x"
  have keep: "re_sub_unsafe U ?r = ?r"
    unfolding re_sub_unsafe_def using sanitize_filename_chars [of _ U x]
    by (intro filter_True) blast
  have clean: "re_sub_spaces U ?r = ?r"
    using sanitize_filename_chars [of _ U x]
    by (simp add: re_sub_spaces_collapse [THEN conjunct2, symmetric] collapse_runs_clean)
  have "take 50 ?r = ?r"
    using sanitize_filename_length [of U x] by simp
  with keep clean show ?thesis
    by (simp add: sanitize_filename_def [of U ?r])
qed

theorem sanitize_filename_idempotent_witness:
  "sanitize_filename latin1_only (lit ''My  Course: Part-1'') = lit ''My_Course_Part-1'' \<and>
   sanitize_filename latin1_only (sanitize_filename latin1_only (lit ''My  Course: Part-1'')) =
     lit ''My_Course_Part-1''"
proof -
  have e: "sanitize_filename latin1_only (lit ''My  Course: Part-1'') = lit ''My_Course_Part-1''"
    by (simp add: sanitize_filename_def re_sub_unsafe_def is_word_def is_alnum_def
      is_space_def latin1_alnum_def latin1_space_def lit_def)
  show ?thesis
    using sanitize_filename_idempotent [of latin1_only "lit ''My  Course: Part-1''"] e
    by simp
qed

lemma py_strip_keeps_prefix:
  assumes "p \<noteq> []" "\<not> is_space U (hd p)" "\<not> is_space U (last p)"
  shows "\<exists>r. py_strip U (p @ s) = p @ r"
proof -
  have a: "dropWhile (is_space U) (p @ s) = p @ s"
    using assms by (cases p) auto
  have "last p \<in> set (rev p)" using assms(1) by simp
  then have "dropWhile (is_space U) (rev s @ rev p) =
      (if \<forall>x \<in> set (rev s). is_space U x then rev p
       else dropWhile (is_space U) (rev s) @ rev p)"
    using assms by (cases "rev p") (auto simp: dropWhile_append last_rev hd_rev)
  then show ?thesis
    unfolding py_strip_def a by (auto simp: rev_append)
qed

lemma has_scheme_py_strip:
  assumes "has_scheme url"
  shows "has_scheme (py_strip U url)"
proof -
  have g: "\<exists>r. py_strip U (lit p @ s) = lit p @ r"
    if "p = ''http://'' \<or> p = ''https://''" for p s
    using that
    by (intro py_strip_keeps_prefix) (auto simp: lit_def is_space_def latin1_space_def)
  from assms consider "startswith url (lit ''http://'')" | "startswith url (lit ''https://'')"
    by (auto simp: has_scheme_def)
  then show ?thesis
  proof cases
    case 1
    then have "url = lit ''http://'' @ drop (length (lit ''http://'')) url"
      by (metis append_take_drop_id startswith_def)
    with g [of "''http://''"] obtain r where "py_strip U url = lit ''http://'' @ r"
      by metis
    then show ?thesis by (simp add: has_scheme_def startswith_def)
  next
    case 2
    then have "url = lit ''https://'' @ drop (length (lit ''https://'')) url"
      by (metis append_take_drop_id startswith_def)
    with g [of "''https://''"] obtain r where "py_strip U url = lit ''https://'' @ r"
      by metis
    then show ?thesis by (simp add: has_scheme_def startswith_def)
  qed
qed

text \<open>
  Claim C3. A submission whose title is empty after trimming and whose URL is not empty
  after trimming but does not start with \<open>http://\<close> or \<open>https://\<close> (read on the URL
  as entered or on the trimmed URL) gets exactly the two messages "Course title is
  required" and "Course URL must start with http:// or https://", and the handler ends
  with these messages: no package is generated.
\<close>

theorem empty_title_bad_scheme_two_errors:
  assumes "py_strip U (course_title f) = []"
    and "py_strip U (course_url f) \<noteq> []"
    and "\<not> has_scheme (course_url f) \<or> \<not> has_scheme (py_strip U (course_url f))"
  shows "validate U f = [''Course title is required'',
                         ''Course URL must start with http:// or https://''] \<and>
         on_generate U f = Rejected [''Course title is required'',
                         ''Course URL must start with http:// or https://'']"
proof -
  from assms(3) have "\<not> has_scheme (course_url f)"
    using has_scheme_py_strip by blast
  with assms(1,2) have "validate U f = [''Course title is required'',
                         ''Course URL must start with http:// or https://'']"
    by (simp add: validate_def)
  then show ?thesis by (simp add: on_generate_def)
qed

theorem empty_title_bad_scheme_witness:
  "py_strip latin1_only (course_title blank_form) = [] \<and>
   py_strip latin1_only (course_url blank_form) \<noteq> [] \<and>
   \<not> has_scheme (course_url blank_form) \<and>
   validate latin1_only blank_form = [''Course title is required'',
                         ''Course URL must start with http:// or https://''] \<and>
   on_generate latin1_only blank_form = Rejected [''Course title is required'',
                         ''Course URL must start with http:// or https://'']"
proof -
  have a: "py_strip latin1_only (course_title blank_form) = []"
    by (simp add: blank_form_def py_strip_def lit_def is_space_def latin1_space_def)
  have b: "py_strip latin1_only (course_url blank_form) \<noteq> []"
    by (simp add: blank_form_def py_strip_def lit_def is_space_def latin1_space_def)
  have c: "\<not> has_scheme (course_url blank_form)"
    by (simp add: blank_form_def has_scheme_def startswith_def lit_def)
  from empty_title_bad_scheme_two_errors [OF a b] a b c show ?thesis by blast
qed

text \<open>
  Claim C10. Every submission gets at most two messages, the title message at most once,
  and never both "Course URL is required" and "Course URL must start with http:// or
  https://".
\<close>

theorem validate_at_most_two_errors:
  "length (validate U f) \<le> 2 \<and>
   count_list (validate U f) ''Course title is required'' \<le> 1 \<and>
   \<not> (''Course URL is required'' \<in> set (validate U f) \<and>
      ''Course URL must start with http:// or https://'' \<in> set (validate U f))"
  by (simp add: validate_def)

theorem validate_at_most_two_errors_witness:
  "validate latin1_only blank_form =
     [''Course title is required'', ''Course URL must start with http:// or https://''] \<and>
   length (validate latin1_only blank_form) \<le> 2 \<and>
   count_list (validate latin1_only blank_form) ''Course title is required'' \<le> 1 \<and>
   \<not> (''Course URL is required'' \<in> set (validate latin1_only blank_form) \<and>
      ''Course URL must start with http:// or https://'' \<in> set (validate latin1_only blank_form))"
proof -
  have "validate latin1_only blank_form =
     [''Course title is required'', ''Course URL must start with http:// or https://'']"
    by (simp add: validate_def blank_form_def py_strip_def lit_def is_space_def
        latin1_space_def has_scheme_def startswith_def)
  then show ?thesis
    using validate_at_most_two_errors [of latin1_only blank_form] by simp
qed

text \<open>
  Claim C4, at the submission with title \<open>Demo\<close> and URL \<open>https://example.com\<close> entered
  with one blank in front: the title is not empty after trimming and the trimmed URL
  starts with \<open>https://\<close>, yet the handler reports "Course URL must start with http://
  or https://" and generates nothing, because the scheme is tested on the URL as entered.
\<close>

theorem leading_space_url_rejected:
  "py_strip U (course_title spaced_url_form) = lit ''Demo'' \<and>
   py_strip U (course_url spaced_url_form) = lit ''https://example.com'' \<and>
   has_scheme (py_strip U (course_url spaced_url_form)) \<and>
   validate U spaced_url_form = [''Course URL must start with http:// or https://''] \<and>
   on_generate U spaced_url_form =
     Rejected [''Course URL must start with http:// or https://'']"
proof -
  have a: "py_strip U (course_title spaced_url_form) = lit ''Demo''"
    by (simp add: spaced_url_form_def py_strip_def lit_def is_space_def latin1_space_def)
  have b: "py_strip U (course_url spaced_url_form) = lit ''https://example.com''"
    by (simp add: spaced_url_form_def py_strip_def lit_def is_space_def latin1_space_def)
  have c: "has_scheme (lit ''https://example.com'')"
    by (simp add: has_scheme_def startswith_def lit_def)
  have d: "\<not> has_scheme (course_url spaced_url_form)"
    by (simp add: spaced_url_form_def has_scheme_def startswith_def lit_def)
  have e: "validate U spaced_url_form = [''Course URL must start with http:// or https://'']"
    using a b d by (simp add: validate_def lit_def)
  from a b c e show ?thesis by (simp add: on_generate_def)
qed

lemma hex_value_range: "hex_value c = Some d \<Longrightarrow> d < 16 \<and> c < 127 \<and> \<not> c_isspace c \<and> c \<noteq> 45 \<and> c \<noteq> 43 \<and> c \<noteq> 35"
  by (auto simp: hex_value_def c_isspace_def split: if_splits)

lemma int_base16_pair:
  assumes "hex_value h = Some x" "hex_value l = Some y"
  shows "int_base16 U [h, l] = Inr (int (16 * x + y))"
  using assms hex_value_range [OF assms(1)] hex_value_range [OF assms(2)]
  by (simp add: int_base16_def ascii_fold_def Let_def)

lemma format_02x_byte: "n < 256 \<Longrightarrow> format_02x n = two_hex n"
proof -
  assume n: "n < 256"
  show ?thesis
  proof (cases "n < 16")
    case True
    then show ?thesis
      by (simp add: format_02x_def two_hex_def hex_digits.simps [of n] hexchar_def)
  next
    case False
    with n have "n div 16 < 16" by simp
    with False show ?thesis
      by (simp add: format_02x_def two_hex_def hex_digits.simps [of n]
          hex_digits.simps [of "n div 16"])
  qed
qed

lemma darker_channel:
  assumes "x < 16" "y < 16"
  shows "format_02x (nat (max 0 (16 * int x + int y - 40))) = two_hex (darken (16 * x + y))"
proof -
  have "nat (max 0 (16 * int x + int y - 40)) = darken (16 * x + y)"
    unfolding darken_def by arith
  moreover have "darken (16 * x + y) < 256"
    using assms unfolding darken_def by arith
  ultimately show ?thesis by (simp add: format_02x_byte)
qed

lemma hover_shade_digits:
  assumes "hex_value a = Some a'" "hex_value b = Some b'" "hex_value c = Some c'"
    "hex_value d = Some d'" "hex_value e = Some e'" "hex_value f = Some f'"
    and col: "color = 35 # [a, b, c, d, e, f] \<or> color = [a, b, c, d, e, f]"
  shows "hover_shade U title url color duration require_min minutes sub info =
     Inr (spec_hover_shade [a, b, c, d, e, f])"
proof -
  have strip: "dropWhile (\<lambda>c. c = 35) color = [a, b, c, d, e, f]"
    using col hex_value_range [OF assms(1)] by auto
  have r: "int_base16 U (take 2 [a, b, c, d, e, f]) = Inr (int (16 * a' + b'))"
    using int_base16_pair [OF assms(1,2)] by simp
  have g: "int_base16 U (take 2 (drop 2 [a, b, c, d, e, f])) = Inr (int (16 * c' + d'))"
    using int_base16_pair [OF assms(3,4)] by simp
  have b: "int_base16 U (take 2 (drop 4 [a, b, c, d, e, f])) = Inr (int (16 * e' + f'))"
    using int_base16_pair [OF assms(5,6)] by simp
  have lt: "a' < 16" "b' < 16" "c' < 16" "d' < 16" "e' < 16" "f' < 16"
    using assms(1-6) hex_value_range by blast+
  show ?thesis
    unfolding hover_shade_def generate_html_def strip Let_def r g b
    using assms(1-6)
    by (simp add: darker_channel lt spec_hover_shade_def channel_def digit_value_def)
qed

lemma is_hex6_digits:
  assumes "is_hex6 ds"
  obtains a b c d e f a' b' c' d' e' f' where "ds = [a, b, c, d, e, f]"
    "hex_value a = Some a'" "hex_value b = Some b'" "hex_value c = Some c'"
    "hex_value d = Some d'" "hex_value e = Some e'" "hex_value f = Some f'"
proof -
  from assms have "length ds = 6" by (simp add: is_hex6_def)
  then obtain a b c d e f where ds: "ds = [a, b, c, d, e, f]"
    by (auto simp: length_Suc_conv eval_nat_numeral)
  with assms that show ?thesis
    by (auto simp: is_hex6_def)
qed

lemma hover_shade_hex6:
  assumes "is_hex6 ds" and "color = 35 # ds \<or> color = ds"
  shows "hover_shade U title url color duration require_min minutes sub info =
           Inr (spec_hover_shade ds)"
proof -
  from assms(1) obtain a b c d e f a' b' c' d' e' f' where ds: "ds = [a, b, c, d, e, f]"
    and h: "hex_value a = Some a'" "hex_value b = Some b'" "hex_value c = Some c'"
    "hex_value d = Some d'" "hex_value e = Some e'" "hex_value f = Some f'"
    by (rule is_hex6_digits)
  from assms(2) have "color = 35 # [a, b, c, d, e, f] \<or> color = [a, b, c, d, e, f]"
    by (simp add: ds)
  from hover_shade_digits [OF h this] show ?thesis by (simp add: ds)
qed

lemmas shade_eval = spec_hover_shade_def two_hex_def darken_def channel_def digit_value_def
  hex_value_def hexchar_def lit_def is_hex6_def

lemma hover_shade_5F2EEA:
  "hover_shade U title url (lit ''#5F2EEA'') duration require_min minutes sub info =
     Inr (lit ''#3706c2'')"
proof -
  have "is_hex6 (lit ''5F2EEA'')" by (simp add: shade_eval)
  moreover have "lit ''#5F2EEA'' = 35 # lit ''5F2EEA''" by (simp add: lit_def)
  moreover have "spec_hover_shade (lit ''5F2EEA'') = lit ''#3706c2''" by (simp add: shade_eval)
  ultimately show ?thesis using hover_shade_hex6 by metis
qed

lemma hover_shade_101010:
  "hover_shade U title url (lit ''#101010'') duration require_min minutes sub info =
     Inr (lit ''#000000'')"
proof -
  have "is_hex6 (lit ''101010'')" by (simp add: shade_eval)
  moreover have "lit ''#101010'' = 35 # lit ''101010''" by (simp add: lit_def)
  moreover have "spec_hover_shade (lit ''101010'') = lit ''#000000''" by (simp add: shade_eval)
  ultimately show ?thesis using hover_shade_hex6 by metis
qed

text \<open>
  Claim C5 as stated fails at its own example: for \<open>#5F2EEA\<close>, the bytes (95, 46, 234)
  lowered by 40 are (55, 6, 194), written \<open>#3706c2\<close>, not \<open>#3f0aca\<close>.
\<close>

theorem hover_shade_5F2EEA_counterexample:
  "hover_shade latin1_only (lit ''Demo'') (lit ''https://example.com'') (lit ''#5F2EEA'')
     60 False 0 [] [] = Inr (lit ''#3706c2'') \<and>
   hover_shade latin1_only (lit ''Demo'') (lit ''https://example.com'') (lit ''#5F2EEA'')
     60 False 0 [] [] \<noteq> Inr (lit ''#3f0aca'')"
  unfolding hover_shade_5F2EEA by (simp add: lit_def)

text \<open>
  Claim C5, amended. For every colour of six hexadecimal digits (with or without the
  leading \<open>#\<close>), the hover shade is \<open>#\<close> followed, for each of the red, green and blue
  bytes, by the two lower-case hexadecimal digits of the byte lowered by 40 and not
  below 0; for \<open>#5F2EEA\<close> (95, 46, 234) it is \<open>#3706c2\<close> (55, 6, 194), and for
  \<open>#101010\<close> it is \<open>#000000\<close>.
\<close>

theorem hover_shade_amended:
  "(is_hex6 ds \<and> (color = 35 # ds \<or> color = ds) \<longrightarrow>
      hover_shade U title url color duration require_min minutes sub info =
        Inr (spec_hover_shade ds)) \<and>
   hover_shade U title url (lit ''#5F2EEA'') duration require_min minutes sub info =
     Inr (lit ''#3706c2'') \<and>
   hover_shade U title url (lit ''#101010'') duration require_min minutes sub info =
     Inr (lit ''#000000'')"
  using hover_shade_hex6 [of ds color U title url duration require_min minutes sub info]
    hover_shade_5F2EEA hover_shade_101010
  by blast

theorem hover_shade_amended_witness:
  "is_hex6 (lit ''ff8000'') \<and>
   hover_shade latin1_only (lit ''Demo'') (lit ''https://example.com'') (35 # lit ''ff8000'')
     60 True 30 [] [] = Inr (lit ''#d75800'') \<and>
   spec_hover_shade (lit ''ff8000'') = lit ''#d75800''"
proof -
  have a: "is_hex6 (lit ''ff8000'')" by (simp add: shade_eval)
  have b: "spec_hover_shade (lit ''ff8000'') = lit ''#d75800''" by (simp add: shade_eval)
  from hover_shade_amended [of "lit ''ff8000''" "35 # lit ''ff8000''" latin1_only
      "lit ''Demo''" "lit ''https://example.com''" 60 True 30 "[]" "[]"] a b
  show ?thesis by simp
qed

lemma utf8_ok_append [simp]: "utf8_ok (a @ b) \<longleftrightarrow> utf8_ok a \<and> utf8_ok b"
  by (simp add: utf8_ok_def)

lemma utf8_ok_Nil [simp]: "utf8_ok []"
  by (simp add: utf8_ok_def)

lemma utf8_ok_Cons [simp]:
  "utf8_ok (c # s) \<longleftrightarrow> \<not> (55296 \<le> c \<and> c \<le> 57343) \<and> utf8_ok s"
  by (simp add: utf8_ok_def)

lemma utf8_ok_small: "\<forall>c \<in> set s. c < 55296 \<Longrightarrow> utf8_ok s"
  by (auto simp: utf8_ok_def list_all_iff)

lemma utf8_ok_lit [simp]: "utf8_ok (lit s)"
proof (rule utf8_ok_small, rule ballI)
  fix c assume "c \<in> set (lit s)"
  then obtain x :: char where "c = of_char x" by (auto simp: lit_def)
  moreover have "(of_char x :: nat) < 256" by simp
  ultimately show "c < 55296" by linarith
qed

lemma dec_digits_small: "\<forall>c \<in> set (dec_digits n). c < 58"
proof (induction n rule: dec_digits.induct)
  case (1 n)
  show ?case
  proof (cases "n < 10")
    case True
    then show ?thesis by (simp add: dec_digits.simps [of n])
  next
    case False
    have "n mod 10 < 10" by simp
    with False 1 show ?thesis by (auto simp: dec_digits.simps [of n])
  qed
qed

lemma utf8_ok_dec_digits [simp]: "utf8_ok (dec_digits n)"
proof (rule utf8_ok_small, rule ballI)
  fix c assume "c \<in> set (dec_digits n)"
  with dec_digits_small have "c < 58" by blast
  then show "c < 55296" by linarith
qed

lemma utf8_ok_py_str [simp]: "utf8_ok (py_str i)"
  by (simp add: py_str_def)

lemma hex_digits_small: "\<forall>c \<in> set (hex_digits n). c < 103"
proof (induction n rule: hex_digits.induct)
  case (1 n)
  show ?case
  proof (cases "n < 16")
    case True
    then show ?thesis by (simp add: hex_digits.simps [of n] hexchar_def)
  next
    case False
    have "n mod 16 < 16" by simp
    then have "hexchar (n mod 16) < 103" by (simp add: hexchar_def)
    with False 1 show ?thesis by (auto simp: hex_digits.simps [of n])
  qed
qed

lemma utf8_ok_hex_digits [simp]: "utf8_ok (hex_digits n)"
proof (rule utf8_ok_small, rule ballI)
  fix c assume "c \<in> set (hex_digits n)"
  with hex_digits_small have "c < 103" by blast
  then show "c < 55296" by linarith
qed

lemma utf8_ok_replicate_zero [simp]: "utf8_ok (replicate k 48)"
  by (induction k) simp_all

lemma utf8_ok_format_02x [simp]: "utf8_ok (format_02x n)"
  by (simp add: format_02x_def Let_def)

lemma utf8_ok_min_time_check [simp]: "utf8_ok (min_time_check_text m)"
  by (simp add: min_time_check_text_def)

lemma utf8_ok_hex6:
  assumes "is_hex6 ds" "color = 35 # ds \<or> color = ds"
  shows "utf8_ok color"
proof (rule utf8_ok_small, rule ballI)
  fix c assume "c \<in> set color"
  with assms(2) have "c = 35 \<or> c \<in> set ds" by auto
  moreover have "x < 127" if "x \<in> set ds" for x
    using that assms(1) hex_value_range [of x] by (auto simp: is_hex6_def list_all_iff)
  ultimately show "c < 55296" by fastforce
qed

lemma utf8_ok_sanitize: "utf8_ok title \<Longrightarrow> utf8_ok (sanitize_filename U title)"
  using sanitize_filename_chars [of _ U title]
  by (fastforce simp: utf8_ok_def list_all_iff)

lemma generate_html_hex6:
  assumes "is_hex6 ds" and "color = 35 # ds \<or> color = ds"
  shows "\<exists>page. generate_html U title url color duration require_min minutes sub info = Inr page \<and>
     page_title page = title \<and> page_primary_color page = color \<and>
     page_darker page = spec_hover_shade ds \<and>
     page_subtitle page = (if sub \<noteq> [] then sub else lit ''External Course with Time Tracking'') \<and>
     page_additional_info page =
       (if info \<noteq> []
        then lit ''<div class='' @ [34] @ lit ''additional-info'' @ [34] @ lit ''>'' @
             info @ lit ''</div>''
        else []) \<and>
     page_course_url page = url \<and>
     page_expected_duration page = py_str (duration * 60) \<and>
     page_min_time_js page =
       (if require_min then lit ''var MIN_TIME_REQUIRED = '' @ py_str (minutes * 60) @ lit '';''
        else []) \<and>
     page_min_time_check page = (if require_min then min_time_check_text minutes else [])"
proof -
  from hover_shade_hex6 [OF assms, of U title url duration require_min minutes sub info]
  obtain page where p: "generate_html U title url color duration require_min minutes sub info = Inr page"
    and d: "page_darker page = spec_hover_shade ds"
    by (auto simp: hover_shade_def split: sum.splits)
  from p have "page_title page = title \<and> page_primary_color page = color \<and>
     page_subtitle page = (if sub \<noteq> [] then sub else lit ''External Course with Time Tracking'') \<and>
     page_additional_info page =
       (if info \<noteq> []
        then lit ''<div class='' @ [34] @ lit ''additional-info'' @ [34] @ lit ''>'' @
             info @ lit ''</div>''
        else []) \<and>
     page_course_url page = url \<and>
     page_expected_duration page = py_str (duration * 60) \<and>
     page_min_time_js page =
       (if require_min then lit ''var MIN_TIME_REQUIRED = '' @ py_str (minutes * 60) @ lit '';''
        else []) \<and>
     page_min_time_check page = (if require_min then min_time_check_text minutes else [])"
    unfolding generate_html_def Let_def by (auto split: sum.splits)
  with p d show ?thesis by blast
qed

lemma digit_value_less: "digit_value c < 16"
  by (simp add: digit_value_def hex_value_def, arith)

lemma utf8_ok_two_hex: "v < 256 \<Longrightarrow> utf8_ok (two_hex v)"
proof -
  assume "v < 256"
  then have "v div 16 < 16" "v mod 16 < 16" by simp_all
  then have "hexchar (v div 16) < 103" "hexchar (v mod 16) < 103"
    by (simp_all add: hexchar_def)
  then show ?thesis by (simp add: two_hex_def)
qed

lemma darken_channel_less: "darken (channel ds i) < 256"
proof -
  have "digit_value (ds ! (2 * i)) < 16" "digit_value (ds ! (2 * i + 1)) < 16"
    by (rule digit_value_less)+
  then have "channel ds i < 256" unfolding channel_def by linarith
  then show ?thesis unfolding darken_def by arith
qed

lemma utf8_ok_spec_hover_shade [simp]: "utf8_ok (spec_hover_shade ds)"
  by (simp add: spec_hover_shade_def utf8_ok_two_hex darken_channel_less)

text \<open>
  Claim C1. For every valid course (a colour of six hexadecimal digits, and text fields
  that are Unicode text, without surrogate code points), \<open>create_scorm_package\<close> returns
  an archive with exactly three entries, named \<open>imsmanifest.xml\<close>, \<open>scormapi.js\<close> and
  \<open>index.html\<close> in this order, none of them in a directory, each written with the
  deflate method.
\<close>

theorem package_three_entries:
  assumes "is_hex6 ds" and "color = 35 # ds \<or> color = ds"
    and "utf8_ok title" "utf8_ok url" "utf8_ok sub" "utf8_ok info"
  shows "\<exists>pkg. create_scorm_package U title url color mastery duration require_min minutes
             sub info = Inr pkg \<and>
           map entry_name pkg = [''imsmanifest.xml'', ''scormapi.js'', ''index.html''] \<and>
           list_all (\<lambda>e. entry_compress e = ZIP_DEFLATED) pkg \<and>
           list_all (\<lambda>e. CHR ''/'' \<notin> set (entry_name e)) pkg"
proof -
  from generate_html_hex6 [OF assms(1,2), of U title url duration require_min minutes sub info]
  obtain page where p: "generate_html U title url color duration require_min minutes sub info = Inr page"
    and f: "page_title page = title" "page_primary_color page = color"
     "page_darker page = spec_hover_shade ds"
     "page_subtitle page = (if sub \<noteq> [] then sub else lit ''External Course with Time Tracking'')"
     "page_additional_info page =
       (if info \<noteq> []
        then lit ''<div class='' @ [34] @ lit ''additional-info'' @ [34] @ lit ''>'' @
             info @ lit ''</div>''
        else [])"
     "page_course_url page = url"
     "page_expected_duration page = py_str (duration * 60)"
     "page_min_time_js page =
       (if require_min then lit ''var MIN_TIME_REQUIRED = '' @ py_str (minutes * 60) @ lit '';''
        else [])"
     "page_min_time_check page = (if require_min then min_time_check_text minutes else [])"
    by blast
  have m: "encodable (Manifest (generate_manifest (sanitize_filename U title) title mastery))"
    using assms(3) by (simp add: generate_manifest_def utf8_ok_sanitize)
  have h: "encodable (LauncherPage page)"
    using assms utf8_ok_hex6 [OF assms(1,2)]
    by (simp add: f)
  have a: "encodable ScormApi" by simp
  show ?thesis
    unfolding create_scorm_package_def Let_def
    using a by (simp add: writestr_def m h p del: encodable.simps)
qed

theorem package_three_entries_witness:
  "is_hex6 (lit ''5F2EEA'') \<and> utf8_ok (lit ''Demo'') \<and> utf8_ok (lit ''https://example.com'') \<and>
   (\<exists>pkg. create_scorm_package latin1_only (lit ''Demo'') (lit ''https://example.com'')
             (lit ''#5F2EEA'') 80 60 False 0 [] [] = Inr pkg \<and>
      map entry_name pkg = [''imsmanifest.xml'', ''scormapi.js'', ''index.html''] \<and>
      list_all (\<lambda>e. entry_compress e = ZIP_DEFLATED) pkg \<and>
      list_all (\<lambda>e. CHR ''/'' \<notin> set (entry_name e)) pkg)"
proof -
  have a: "is_hex6 (lit ''5F2EEA'')" by (simp add: shade_eval)
  have b: "lit ''#5F2EEA'' = 35 # lit ''5F2EEA'' \<or> lit ''#5F2EEA'' = lit ''5F2EEA''"
    by (simp add: lit_def)
  have c: "utf8_ok (lit ''Demo'')" "utf8_ok (lit ''https://example.com'')" "utf8_ok []"
    by (simp_all add: lit_def)
  from package_three_entries [OF a b c(1) c(2) c(3) c(3), of latin1_only 80 60 False 0] a c
  show ?thesis by simp
qed






























end
